theory Spec2Isabelle
  imports Complex_Main
begin

section \<open>The multilateration solver of mlat-server (mlat/solver.py)\<close>

text \<open>
  The module has two functions: \<^verbatim>\<open>_residuals\<close>, the scalar objective handed to
  the optimizer, and \<^verbatim>\<open>solve\<close>, which checks its input, clamps the initial guess,
  converts the measurements to pseudoranges, runs \<^verbatim>\<open>scipy.optimize.minimize\<close> and
  validates the outcome.  The modules \<^verbatim>\<open>geodesy\<close>, \<^verbatim>\<open>config\<close> and
  \<^verbatim>\<open>constants\<close> and the optimizer are collaborators: they enter the model as
  parameters.
\<close>

subsection \<open>Floating-point values\<close>

text \<open>
  A Python \<^verbatim>\<open>float\<close> / numpy \<^verbatim>\<open>float64\<close> is a finite number, an infinity or
  NaN.  The special values follow IEEE 754; finite values are exact reals, so rounding,
  overflow of a finite result and the sign of zero are not represented.
\<close>

datatype pyfloat = Finite real | PosInf | NegInf | NaN

fun f_neg :: "pyfloat \<Rightarrow> pyfloat" where
  "f_neg (Finite a) = Finite (- a)"
| "f_neg PosInf = NegInf"
| "f_neg NegInf = PosInf"
| "f_neg NaN = NaN"

fun f_add :: "pyfloat \<Rightarrow> pyfloat \<Rightarrow> pyfloat" where
  "f_add (Finite a) (Finite b) = Finite (a + b)"
| "f_add (Finite a) PosInf = PosInf"
| "f_add (Finite a) NegInf = NegInf"
| "f_add PosInf (Finite b) = PosInf"
| "f_add PosInf PosInf = PosInf"
| "f_add PosInf NegInf = NaN"
| "f_add NegInf (Finite b) = NegInf"
| "f_add NegInf NegInf = NegInf"
| "f_add NegInf PosInf = NaN"
| "f_add NaN y = NaN"
| "f_add x NaN = NaN"

definition f_sub :: "pyfloat \<Rightarrow> pyfloat \<Rightarrow> pyfloat" where
  "f_sub x y = f_add x (f_neg y)"

fun f_mul :: "pyfloat \<Rightarrow> pyfloat \<Rightarrow> pyfloat" where
  "f_mul (Finite a) (Finite b) = Finite (a * b)"
| "f_mul (Finite a) PosInf = (if a = 0 then NaN else if 0 < a then PosInf else NegInf)"
| "f_mul (Finite a) NegInf = (if a = 0 then NaN else if 0 < a then NegInf else PosInf)"
| "f_mul PosInf (Finite b) = (if b = 0 then NaN else if 0 < b then PosInf else NegInf)"
| "f_mul NegInf (Finite b) = (if b = 0 then NaN else if 0 < b then NegInf else PosInf)"
| "f_mul PosInf PosInf = PosInf"
| "f_mul PosInf NegInf = NegInf"
| "f_mul NegInf PosInf = NegInf"
| "f_mul NegInf NegInf = PosInf"
| "f_mul NaN y = NaN"
| "f_mul x NaN = NaN"

text \<open>
  Division with a numpy scalar among the operands: a zero divisor gives an infinity or
  NaN (with a warning), it does not raise.
\<close>

fun f_div :: "pyfloat \<Rightarrow> pyfloat \<Rightarrow> pyfloat" where
  "f_div (Finite a) (Finite b) =
     (if b = 0 then (if a = 0 then NaN else if 0 < a then PosInf else NegInf)
      else Finite (a / b))"
| "f_div (Finite a) PosInf = Finite 0"
| "f_div (Finite a) NegInf = Finite 0"
| "f_div PosInf (Finite b) = (if 0 \<le> b then PosInf else NegInf)"
| "f_div NegInf (Finite b) = (if 0 \<le> b then NegInf else PosInf)"
| "f_div PosInf PosInf = NaN"
| "f_div PosInf NegInf = NaN"
| "f_div NegInf PosInf = NaN"
| "f_div NegInf NegInf = NaN"
| "f_div NaN y = NaN"
| "f_div x NaN = NaN"

text \<open>The comparison \<^verbatim>\<open>x < y\<close>: false as soon as one side is NaN.\<close>

fun f_lt :: "pyfloat \<Rightarrow> pyfloat \<Rightarrow> bool" where
  "f_lt (Finite a) (Finite b) = (a < b)"
| "f_lt (Finite a) PosInf = True"
| "f_lt NegInf (Finite b) = True"
| "f_lt NegInf PosInf = True"
| "f_lt x y = False"

definition f_gt :: "pyfloat \<Rightarrow> pyfloat \<Rightarrow> bool" where
  "f_gt x y = f_lt y x"

text \<open>The comparison \<^verbatim>\<open>x <= y\<close>, used to state ranges; also false on NaN.\<close>

fun f_le :: "pyfloat \<Rightarrow> pyfloat \<Rightarrow> bool" where
  "f_le (Finite a) (Finite b) = (a \<le> b)"
| "f_le (Finite a) PosInf = True"
| "f_le NegInf (Finite b) = True"
| "f_le NegInf PosInf = True"
| "f_le PosInf PosInf = True"
| "f_le NegInf NegInf = True"
| "f_le (Finite a) NegInf = False"
| "f_le PosInf (Finite b) = False"
| "f_le PosInf NegInf = False"
| "f_le NaN y = False"
| "f_le x NaN = False"

subsection \<open>Exceptions\<close>

datatype error =
    ValueError string
  | TypeError string
  | IndexError string
  | ZeroDivisionError string
  | MinimizeRaised

text \<open>
  \<^verbatim>\<open>MinimizeRaised\<close> stands for whatever exception propagates out of
  \<^verbatim>\<open>scipy.optimize.minimize\<close> (solve has no handler around the call).
\<close>

text \<open>
  Division of two plain Python floats: a zero divisor raises
  \<^verbatim>\<open>ZeroDivisionError\<close>.
\<close>

definition py_div :: "pyfloat \<Rightarrow> pyfloat \<Rightarrow> error + pyfloat" where
  "py_div a b =
     (if b = Finite 0 then Inl (ZeroDivisionError ''float division by zero'')
      else Inr (f_div a b))"

text \<open>The IEEE square root: NaN below zero.\<close>

fun f_sqrt :: "pyfloat \<Rightarrow> pyfloat" where
  "f_sqrt (Finite a) = (if a < 0 then NaN else Finite (sqrt a))"
| "f_sqrt PosInf = PosInf"
| "f_sqrt NegInf = NaN"
| "f_sqrt NaN = NaN"

text \<open>
  \<^verbatim>\<open>math.sqrt\<close>: raises \<^verbatim>\<open>ValueError('math domain error')\<close> on a negative
  argument (minus infinity included); NaN goes through.
\<close>

definition math_sqrt :: "pyfloat \<Rightarrow> error + pyfloat" where
  "math_sqrt v =
     (if f_lt v (Finite 0) then Inl (ValueError ''math domain error'') else Inr (f_sqrt v))"

text \<open>\<^verbatim>\<open>np.array(res)**2\<close> squares each entry; \<^verbatim>\<open>np.sum\<close> adds them, 0.0 for none.\<close>

definition np_square :: "pyfloat \<Rightarrow> pyfloat" where
  "np_square v = f_mul v v"

definition np_sum :: "pyfloat list \<Rightarrow> pyfloat" where
  "np_sum vs = foldl f_add (Finite 0) vs"

subsection \<open>Data\<close>

type_synonym ecef = "pyfloat \<times> pyfloat \<times> pyfloat"

text \<open>Geodetic coordinates \<^verbatim>\<open>(lat, lng, alt)\<close>.\<close>

type_synonym llh = "pyfloat \<times> pyfloat \<times> pyfloat"

text \<open>The optimization variable \<^verbatim>\<open>x_guess\<close>: position and range offset.\<close>

type_synonym state = "pyfloat \<times> pyfloat \<times> pyfloat \<times> pyfloat"

text \<open>A receiver object; only its attribute \<^verbatim>\<open>position\<close> is read.\<close>

record receiver =
  position :: ecef

text \<open>A measurement is the tuple \<^verbatim>\<open>(receiver, timestamp, variance)\<close>.\<close>

type_synonym measurement = "receiver \<times> pyfloat \<times> pyfloat"

text \<open>An entry of \<^verbatim>\<open>pseudorange_data\<close>: \<^verbatim>\<open>(receiver_position, pseudorange, error)\<close>.\<close>

type_synonym datum = "ecef \<times> pyfloat \<times> pyfloat"

type_synonym matrix = "pyfloat list list"

text \<open>The module \<^verbatim>\<open>geodesy\<close>, as far as solver.py calls it.\<close>

record geodesy =
  ecef_distance :: "ecef \<Rightarrow> ecef \<Rightarrow> pyfloat"
  ecef2llh :: "ecef \<Rightarrow> llh"
  llh2ecef :: "llh \<Rightarrow> ecef"

text \<open>The constants of \<^verbatim>\<open>config\<close> and \<^verbatim>\<open>constants\<close> that solver.py reads.\<close>

record config =
  MIN_ALT :: pyfloat
  MAX_ALT :: pyfloat
  SOLVER_MAXFEV :: int
  Cair :: pyfloat

text \<open>
  The \<^verbatim>\<open>OptimizeResult\<close> of scipy, as far as solve reads it: \<^verbatim>\<open>res.success\<close>,
  \<^verbatim>\<open>res.x\<close> and \<^verbatim>\<open>res.hess_inv\<close> (which may be \<^verbatim>\<open>None\<close>).
\<close>

record opt_result =
  success :: bool
  x_vec :: state
  hess_inv :: "matrix option"

text \<open>
  \<^verbatim>\<open>scipy.optimize.minimize(fun, x0, method='BFGS', options={'maxiter': n})\<close>:
  a function of the objective, the start state and the iteration bound, giving
  \<^verbatim>\<open>None\<close> when the call raises.
\<close>

type_synonym minimizer =
  "(state \<Rightarrow> error + pyfloat) \<Rightarrow> state \<Rightarrow> int \<Rightarrow> opt_result option"

subsection \<open>The objective: \<^verbatim>\<open>_residuals\<close> (lines 39-58)\<close>

text \<open>
  The loop of lines 48-50: one residual per entry of \<^verbatim>\<open>pseudorange_data\<close>.  Under
  the optimizer \<^verbatim>\<open>x_guess\<close> is a numpy array, so \<^verbatim>\<open>offset\<close> and with it the
  dividend are numpy scalars: the division does not raise.  (Called with a list of plain
  floats, the same line raises \<^verbatim>\<open>ZeroDivisionError\<close> when \<^verbatim>\<open>error\<close> is 0.0.)
\<close>

fun range_residuals :: "geodesy \<Rightarrow> ecef \<Rightarrow> pyfloat \<Rightarrow> datum list \<Rightarrow> pyfloat list" where
  "range_residuals geo position_guess offset [] = []"
| "range_residuals geo position_guess offset ((receiver_position, pseudorange, err) # ds) =
     (let pseudorange_guess = f_sub (ecef_distance geo receiver_position position_guess) offset
      in f_div (f_sub pseudorange pseudorange_guess) err
           # range_residuals geo position_guess offset ds)"

text \<open>
  Lines 53-55: with an altitude, one more residual.  \<^verbatim>\<open>altitude_error\<close> may be
  \<^verbatim>\<open>None\<close> (the docstring of solve allows it), and dividing by it is then a
  \<^verbatim>\<open>TypeError\<close>.  The altitudes are taken to be plain floats (the caller's
  \<^verbatim>\<open>altitude\<close>, and what \<^verbatim>\<open>geodesy.ecef2llh\<close> returns), so a zero
  \<^verbatim>\<open>altitude_error\<close> raises.
\<close>

definition residuals ::
  "geodesy \<Rightarrow> state \<Rightarrow> datum list \<Rightarrow> pyfloat option \<Rightarrow> pyfloat option \<Rightarrow> error + pyfloat" where
  "residuals geo x_guess pseudorange_data altitude altitude_error =
     (case x_guess of (p0, p1, p2, offset) \<Rightarrow>
        (case altitude of
           None \<Rightarrow>
             Inr (np_sum (map np_square
                    (range_residuals geo (p0, p1, p2) offset pseudorange_data)))
         | Some alt \<Rightarrow>
             (case ecef2llh geo (p0, p1, p2) of (lat, lng, altitude_guess) \<Rightarrow>
                (case altitude_error of
                   None \<Rightarrow> Inl (TypeError ''unsupported operand type(s) for /'')
                 | Some alt_err \<Rightarrow>
                     (case py_div (f_sub alt altitude_guess) alt_err of
                        Inl e \<Rightarrow> Inl e
                      | Inr altitude_residual \<Rightarrow>
                          Inr (np_sum (map np_square
                                 (range_residuals geo (p0, p1, p2) offset pseudorange_data
                                    @ [altitude_residual]))))))))"

subsection \<open>\<^verbatim>\<open>solve\<close> (lines 62-131)\<close>

text \<open>Lines 82-88: the altitude of the initial guess is brought into the allowed band.\<close>

definition clamp_guess :: "geodesy \<Rightarrow> config \<Rightarrow> ecef \<Rightarrow> ecef" where
  "clamp_guess geo cfg initial_guess =
     (case ecef2llh geo initial_guess of (glat, glng, galt) \<Rightarrow>
        let (galt1, guess1) =
              (if f_lt galt (MIN_ALT cfg)
               then (MIN_ALT cfg, llh2ecef geo (glat, glng, MIN_ALT cfg))
               else (galt, initial_guess));
            (galt2, guess2) =
              (if f_gt galt1 (MAX_ALT cfg)
               then (MAX_ALT cfg, llh2ecef geo (glat, glng, MAX_ALT cfg))
               else (galt1, guess1))
        in guess2)"

text \<open>
  Lines 91-94: the list comprehension, left to right; \<^verbatim>\<open>math.sqrt\<close> may raise.
\<close>

fun pseudoranges :: "config \<Rightarrow> pyfloat \<Rightarrow> measurement list \<Rightarrow> error + datum list" where
  "pseudoranges cfg base_timestamp [] = Inr []"
| "pseudoranges cfg base_timestamp ((rcv, timestamp, variance) # ms) =
     (case math_sqrt variance of
        Inl e \<Rightarrow> Inl e
      | Inr s \<Rightarrow>
          (case pseudoranges cfg base_timestamp ms of
             Inl e \<Rightarrow> Inl e
           | Inr ds \<Rightarrow>
               Inr ((position rcv,
                     f_mul (f_sub timestamp base_timestamp) (Cair cfg),
                     f_mul s (Cair cfg)) # ds)))"

text \<open>Lines 90-94: \<^verbatim>\<open>measurements[0][1]\<close> is the reference time.\<close>

definition pseudorange_data_of :: "config \<Rightarrow> measurement list \<Rightarrow> error + datum list" where
  "pseudorange_data_of cfg measurements =
     (case measurements of
        [] \<Rightarrow> Inl (IndexError ''list index out of range'')
      | (_, base_timestamp, _) # _ \<Rightarrow> pseudoranges cfg base_timestamp measurements)"

text \<open>
  Lines 79-95, everything before the optimizer is called: the result is the exception
  raised, or \<^verbatim>\<open>pseudorange_data\<close> and the start state \<^verbatim>\<open>x_guess\<close>.
\<close>

definition solve_setup ::
  "geodesy \<Rightarrow> config \<Rightarrow> measurement list \<Rightarrow> pyfloat option \<Rightarrow> ecef \<Rightarrow> error + (datum list \<times> state)" where
  "solve_setup geo cfg measurements altitude initial_guess =
     (if int (length measurements) + (case altitude of None \<Rightarrow> 0 | Some _ \<Rightarrow> 1) < 4
      then Inl (ValueError ''Not enough measurements available'')
      else
        (case clamp_guess geo cfg initial_guess of (g0, g1, g2) \<Rightarrow>
           (case pseudorange_data_of cfg measurements of
              Inl e \<Rightarrow> Inl e
            | Inr pseudorange_data \<Rightarrow> Inr (pseudorange_data, (g0, g1, g2, Finite 0)))))"

text \<open>\<^verbatim>\<open>res.hess_inv[0:3, 0:3]\<close>: the first three rows, cut to their first three entries.\<close>

definition slice3 :: "matrix \<Rightarrow> matrix" where
  "slice3 h = map (take 3) (take 3 h)"

text \<open>Lines 103-131: what solve returns for an optimizer result.\<close>

definition solve_result :: "opt_result \<Rightarrow> (ecef \<times> matrix option) option" where
  "solve_result res =
     (if success res then
        (case x_vec res of (e0, e1, e2, offset_est) \<Rightarrow>
           if f_lt offset_est (Finite 0) \<or> f_gt offset_est (Finite 500000) then None
           else (case hess_inv res of
                   None \<Rightarrow> Some ((e0, e1, e2), None)
                 | Some h \<Rightarrow> Some ((e0, e1, e2), Some (slice3 h))))
      else None)"

text \<open>
  The whole function.  \<^verbatim>\<open>Inl e\<close>: solve raises e; \<^verbatim>\<open>Inr None\<close>: it returns
  \<^verbatim>\<open>None\<close>; \<^verbatim>\<open>Inr (Some (ecef, ecef_cov))\<close>: it returns the pair.  The decorator
  \<^verbatim>\<open>profile.trackcpu\<close> only measures the call and is left out.
\<close>

definition solve ::
  "geodesy \<Rightarrow> config \<Rightarrow> minimizer \<Rightarrow> measurement list \<Rightarrow> pyfloat option \<Rightarrow> pyfloat option \<Rightarrow> ecef
     \<Rightarrow> error + (ecef \<times> matrix option) option" where
  "solve geo cfg minimize measurements altitude altitude_error initial_guess =
     (case solve_setup geo cfg measurements altitude initial_guess of
        Inl e \<Rightarrow> Inl e
      | Inr (pseudorange_data, x_guess) \<Rightarrow>
          (case minimize (\<lambda>x. residuals geo x pseudorange_data altitude altitude_error)
                  x_guess (SOLVER_MAXFEV cfg) of
             None \<Rightarrow> Inl MinimizeRaised
           | Some res \<Rightarrow> Inr (solve_result res)))"

subsection \<open>The heap: what solve does to the caller's list\<close>

text \<open>
  In Python \<^verbatim>\<open>measurements\<close> is a reference to a list object that the caller
  still holds.  Here the heap is a list of objects, an address is an index, and a new
  object goes to the end.  The tuples in the list are immutable values.
\<close>

datatype pyobj =
    MeasurementList "measurement list"
  | DatumList "datum list"
  | FloatList "pyfloat list"

type_synonym heap = "pyobj list"

definition heap_alloc :: "heap \<Rightarrow> pyobj \<Rightarrow> nat \<times> heap" where
  "heap_alloc h ob = (length h, h @ [ob])"

text \<open>Reading the list object at an address: \<^verbatim>\<open>len\<close>, indexing and iteration go through it.\<close>

definition heap_measurements :: "heap \<Rightarrow> nat \<Rightarrow> error + measurement list" where
  "heap_measurements h a =
     (if a < length h
      then (case h ! a of
              MeasurementList ms \<Rightarrow> Inr ms
            | _ \<Rightarrow> Inl (TypeError ''not a list of measurements''))
      else Inl (TypeError ''not a list of measurements''))"

text \<open>
  \<^verbatim>\<open>solve\<close> statement by statement, with the heap passed along: line 79 reads the
  length, lines 90-94 read the entries and build the new list
  \<^verbatim>\<open>pseudorange_data\<close>, line 95 builds the new list \<^verbatim>\<open>x_guess\<close>.
\<close>

definition solve_heap ::
  "geodesy \<Rightarrow> config \<Rightarrow> minimizer \<Rightarrow> nat \<Rightarrow> pyfloat option \<Rightarrow> pyfloat option \<Rightarrow> ecef \<Rightarrow> heap
     \<Rightarrow> (error + (ecef \<times> matrix option) option) \<times> heap" where
  "solve_heap geo cfg minimize measurements altitude altitude_error initial_guess h =
     (case heap_measurements h measurements of
        Inl e \<Rightarrow> (Inl e, h)
      | Inr counted \<Rightarrow>
          if int (length counted) + (case altitude of None \<Rightarrow> 0 | Some _ \<Rightarrow> 1) < 4
          then (Inl (ValueError ''Not enough measurements available''), h)
          else
            (case clamp_guess geo cfg initial_guess of (g0, g1, g2) \<Rightarrow>
               (case heap_measurements h measurements of
                  Inl e \<Rightarrow> (Inl e, h)
                | Inr entries \<Rightarrow>
                    (case pseudorange_data_of cfg entries of
                       Inl e \<Rightarrow> (Inl e, h)
                     | Inr pseudorange_data \<Rightarrow>
                         (case heap_alloc h (DatumList pseudorange_data) of (data_ref, h1) \<Rightarrow>
                            (case heap_alloc h1 (FloatList [g0, g1, g2, Finite 0]) of (x_ref, h2) \<Rightarrow>
                               (case minimize
                                       (\<lambda>x. residuals geo x pseudorange_data altitude altitude_error)
                                       (g0, g1, g2, Finite 0) (SOLVER_MAXFEV cfg) of
                                  None \<Rightarrow> (Inl MinimizeRaised, h2)
                                | Some res \<Rightarrow> (Inr (solve_result res), h2))))))))"

subsection \<open>The specification's wording of the converter and of the objective\<close>






text \<open>The geodetic altitude of a position: the third component of \<^verbatim>\<open>ecef2llh\<close>.\<close>

definition geodetic_altitude :: "geodesy \<Rightarrow> ecef \<Rightarrow> pyfloat" where
  "geodetic_altitude geo p = (case ecef2llh geo p of (lat, lng, alt) \<Rightarrow> alt)"

subsection \<open>Example collaborators\<close>

text \<open>
  Concrete collaborators on which the model can be run: the straight-line distance, a
  geodetic frame whose altitude is the third coordinate, round constants, and an
  optimizer that reports a given result.
\<close>

definition straight_line_distance :: "ecef \<Rightarrow> ecef \<Rightarrow> pyfloat" where
  "straight_line_distance a b =
     (case a of (a0, a1, a2) \<Rightarrow>
        (case b of (b0, b1, b2) \<Rightarrow>
           f_sqrt (f_add (f_add (np_square (f_sub a0 b0)) (np_square (f_sub a1 b1)))
                         (np_square (f_sub a2 b2)))))"

definition example_geodesy :: geodesy where
  "example_geodesy =
     \<lparr> ecef_distance = straight_line_distance, ecef2llh = id, llh2ecef = id \<rparr>"

definition example_config :: config where
  "example_config =
     \<lparr> MIN_ALT = Finite (- 500), MAX_ALT = Finite 20000, SOLVER_MAXFEV = 100,
       Cair = Finite 300000000 \<rparr>"

definition reporting :: "opt_result \<Rightarrow> minimizer" where
  "reporting res objective x0 maxiter = Some res"

text \<open>
  Instrumented optimizers.  The first reports its start state as the result.  The second
  reports the offset of its start state in the three position slots.  The third evaluates
  the objective at the start state, as scipy's BFGS does before anything else: an
  exception of the objective goes through, and a value is reported in the position
  slots.
\<close>

definition start_reporting :: minimizer where
  "start_reporting objective x0 maxiter =
     Some \<lparr> success = True, x_vec = x0, hess_inv = None \<rparr>"

definition offset_reporting :: minimizer where
  "offset_reporting objective x0 maxiter =
     (case x0 of (a, b, c, off) \<Rightarrow>
        Some \<lparr> success = True, x_vec = (off, off, off, Finite 1), hess_inv = None \<rparr>)"

definition evaluating :: minimizer where
  "evaluating objective x0 maxiter =
     (case objective x0 of
        Inl e \<Rightarrow> None
      | Inr v \<Rightarrow> Some \<lparr> success = True, x_vec = (v, v, v, Finite 0), hess_inv = None \<rparr>)"

definition receiver_at :: "real \<Rightarrow> real \<Rightarrow> real \<Rightarrow> receiver" where
  "receiver_at a b c = \<lparr> position = (Finite a, Finite b, Finite c) \<rparr>"

text \<open>Four receivers, timestamps in order, variance 1.\<close>

definition four_measurements :: "measurement list" where
  "four_measurements =
     [(receiver_at 0 0 0, Finite 0, Finite 1),
      (receiver_at 1000 0 0, Finite 1, Finite 1),
      (receiver_at 0 1000 0, Finite 2, Finite 1),
      (receiver_at 0 0 1000, Finite 3, Finite 1)]"

text \<open>Their pseudoranges under the example constants.\<close>

definition four_pseudoranges :: "datum list" where
  "four_pseudoranges =
     [((Finite 0, Finite 0, Finite 0), Finite 0, Finite 300000000),
      ((Finite 1000, Finite 0, Finite 0), Finite 300000000, Finite 300000000),
      ((Finite 0, Finite 1000, Finite 0), Finite 600000000, Finite 300000000),
      ((Finite 0, Finite 0, Finite 1000), Finite 900000000, Finite 300000000)]"

text \<open>Four receivers, the first one 999990 m from the point (10, 20, 30).\<close>

definition far_measurements :: "measurement list" where
  "far_measurements =
     [(receiver_at 1000000 20 30, Finite 0, Finite 1),
      (receiver_at 1000 0 0, Finite 1, Finite 1),
      (receiver_at 0 1000 0, Finite 2, Finite 1),
      (receiver_at 0 0 1000, Finite 3, Finite 1)]"



text \<open>Four measurements, the second with variance -4.\<close>

definition negative_variance_measurements :: "measurement list" where
  "negative_variance_measurements =
     [(receiver_at 0 0 0, Finite 0, Finite 1),
      (receiver_at 1000 0 0, Finite 1, Finite (- 4)),
      (receiver_at 0 1000 0, Finite 2, Finite 1),
      (receiver_at 0 0 1000, Finite 3, Finite 1)]"

definition three_measurements :: "measurement list" where
  "three_measurements = take 3 four_measurements"

definition example_hess_inv :: matrix where
  "example_hess_inv =
     [[Finite 1, Finite 2, Finite 3, Finite 4],
      [Finite 5, Finite 6, Finite 7, Finite 8],
      [Finite 9, Finite 10, Finite 11, Finite 12],
      [Finite 13, Finite 14, Finite 15, Finite 16]]"

text \<open>An optimizer result that reports success with the given offset estimate.\<close>

definition converged :: "real \<Rightarrow> matrix option \<Rightarrow> opt_result" where
  "converged off hinv =
     \<lparr> success = True, x_vec = (Finite 10, Finite 20, Finite 30, Finite off), hess_inv = hinv \<rparr>"

definition not_converged :: opt_result where
  "not_converged =
     \<lparr> success = False, x_vec = (Finite 10, Finite 20, Finite 30, Finite 40),
       hess_inv = Some example_hess_inv \<rparr>"

section \<open>Properties\<close>

subsection \<open>The input check\<close>

lemma pseudoranges_error:
  "pseudoranges cfg b ms = Inl e \<Longrightarrow> e = ValueError ''math domain error''"
  by (induction ms) (auto simp: math_sqrt_def split: sum.splits if_splits)

lemma pseudorange_data_of_error:
  "pseudorange_data_of cfg ms = Inl e \<Longrightarrow>
     e = ValueError ''math domain error'' \<or> e = IndexError ''list index out of range''"
  by (auto simp: pseudorange_data_of_def split: list.splits dest: pseudoranges_error)

text \<open>
  C1.  solve raises the input error, \<^verbatim>\<open>ValueError('Not enough measurements available')\<close>,
  if and only if the number of measurements, plus one when an altitude is given, is
  below 4.  The right-hand side reads only the length of the list, so the content of the
  measurements plays no part.  (Another exception of the same class,
  \<^verbatim>\<open>ValueError('math domain error')\<close>, comes from \<^verbatim>\<open>math.sqrt\<close> on a negative
  variance; it is a different value and is not the input error.)
\<close>

theorem solve_input_check:
  "solve geo cfg minimize measurements altitude altitude_error initial_guess
       = Inl (ValueError ''Not enough measurements available'')
   \<longleftrightarrow> int (length measurements) + (case altitude of None \<Rightarrow> 0 | Some _ \<Rightarrow> 1) < 4"
  by (auto simp: solve_def solve_setup_def split: sum.splits prod.splits option.splits if_splits
           dest!: pseudorange_data_of_error)

text \<open>Three measurements alone fail the check; three measurements and an altitude pass it.\<close>

theorem solve_input_check_witness:
  "solve example_geodesy example_config (reporting (converged 40 None))
         three_measurements None None (Finite 0, Finite 0, Finite 0)
     = Inl (ValueError ''Not enough measurements available'')
   \<and> solve example_geodesy example_config (reporting (converged 40 None))
         three_measurements (Some (Finite 1000)) (Some (Finite 50)) (Finite 0, Finite 0, Finite 0)
     \<noteq> Inl (ValueError ''Not enough measurements available'')"
  using solve_input_check [of example_geodesy example_config "reporting (converged 40 None)"
          three_measurements None None "(Finite 0, Finite 0, Finite 0)"]
        solve_input_check [of example_geodesy example_config "reporting (converged 40 None)"
          three_measurements "Some (Finite 1000)" "Some (Finite 50)" "(Finite 0, Finite 0, Finite 0)"]
  by (simp add: three_measurements_def four_measurements_def)

subsection \<open>Comparisons, and running the examples\<close>

lemma f_le_not_gt: "f_le a b \<Longrightarrow> \<not> f_gt a b"
  unfolding f_gt_def by (cases a; cases b) simp_all

lemma f_le_zero_not_lt: "f_le (Finite 0) a \<Longrightarrow> \<not> f_lt a (Finite 0)"
  by (cases a) simp_all

lemma four_measurements_setup:
  "\<exists>sx sy sz so. solve_setup example_geodesy example_config four_measurements altitude g
     = Inr (four_pseudoranges, (sx, sy, sz, so))"
  by (simp add: solve_setup_def four_measurements_def four_pseudoranges_def
        pseudorange_data_of_def math_sqrt_def example_config_def receiver_at_def f_sub_def
        split: prod.splits option.splits)

lemma axis_distance:
  "straight_line_distance (Finite a, Finite b, Finite c) (Finite a', Finite b, Finite c)
     = Finite \<bar>a - a'\<bar>"
  by (simp add: straight_line_distance_def np_square_def f_sub_def)

lemma four_measurements_data:
  "pseudorange_data_of example_config four_measurements = Inr four_pseudoranges"
  by (simp add: four_measurements_def four_pseudoranges_def pseudorange_data_of_def
        math_sqrt_def example_config_def receiver_at_def f_sub_def)

lemma example_clamp:
  "clamp_guess example_geodesy example_config (Finite a, Finite b, Finite c) =
     (Finite a, Finite b, Finite (if c < - 500 then - 500 else if 20000 < c then 20000 else c))"
  by (simp add: clamp_guess_def example_geodesy_def example_config_def f_gt_def)


text \<open>
  A call that passes the input check and converts its measurements reaches the
  optimizer: solve is then the outcome of that one call, on the objective built from
  the converted data and on the clamped guess with offset 0.0.
\<close>

lemma solve_reaches_minimize:
  assumes "\<not> int (length measurements) + (case altitude of None \<Rightarrow> 0 | Some _ \<Rightarrow> 1) < 4"
    and "pseudorange_data_of cfg measurements = Inr pd"
    and "clamp_guess geo cfg initial_guess = (sx, sy, sz)"
  shows "solve geo cfg minimize measurements altitude altitude_error initial_guess =
           (case minimize (\<lambda>x. residuals geo x pd altitude altitude_error)
                   (sx, sy, sz, Finite 0) (SOLVER_MAXFEV cfg) of
              None \<Rightarrow> Inl MinimizeRaised
            | Some res \<Rightarrow> Inr (solve_result res))"
  using assms by (simp add: solve_def solve_setup_def)

lemma solve_conversion_raises:
  assumes "\<not> int (length measurements) + (case altitude of None \<Rightarrow> 0 | Some _ \<Rightarrow> 1) < 4"
    and "pseudorange_data_of cfg measurements = Inl e"
  shows "solve geo cfg minimize measurements altitude altitude_error initial_guess = Inl e"
  using assms by (simp add: solve_def solve_setup_def split: prod.splits)

subsection \<open>The objective\<close>

lemma np_square_NaN_iff: "np_square v = NaN \<longleftrightarrow> v = NaN"
  by (cases v) (simp_all add: np_square_def)













subsection \<open>The pseudorange converter\<close>






subsection \<open>The start state handed to the optimizer\<close>

lemma f_le_refl_left: "f_le a b \<Longrightarrow> f_le a a"
  by (cases a; cases b) simp_all

lemma f_le_refl_right: "f_le a b \<Longrightarrow> f_le b b"
  by (cases a; cases b) simp_all

lemma not_f_lt_f_le: "\<not> f_lt a b \<Longrightarrow> a \<noteq> NaN \<Longrightarrow> f_le c b \<Longrightarrow> f_le b a"
  by (cases a; cases b; cases c) simp_all

lemma not_f_gt_f_le: "\<not> f_gt a b \<Longrightarrow> a \<noteq> NaN \<Longrightarrow> f_le b c \<Longrightarrow> f_le a b"
  unfolding f_gt_def by (cases a; cases b; cases c) simp_all

text \<open>
  C5.  Take a call that passes the input check and converts its measurements, with a
  non-empty band (\<^verbatim>\<open>MIN_ALT <= MAX_ALT\<close>), and let the starting altitude be
  \<^verbatim>\<open>MIN_ALT\<close> when the geodetic altitude of the guess is below \<^verbatim>\<open>MIN_ALT\<close>,
  \<^verbatim>\<open>MAX_ALT\<close> when it is above \<^verbatim>\<open>MAX_ALT\<close>, and the altitude of the guess
  otherwise.  Then, whatever the optimizer, solve is the outcome of one call of it, and
  the start state of that call has offset 0.0 and as its position: the geodetic
  coordinates of the guess with the starting altitude, converted to ECEF, when the
  altitude was adjusted; the guess itself, with no conversion, when it was not.  When
  the geodetic conversion takes that ECEF point back to these coordinates, the geodetic
  altitude of the start position is the starting altitude; and unless the altitude of the
  guess is NaN, the starting altitude lies in the band.
\<close>

theorem initial_guess_clamped:
  assumes "\<not> int (length measurements) + (case altitude of None \<Rightarrow> 0 | Some _ \<Rightarrow> 1) < 4"
    and "pseudorange_data_of cfg measurements = Inr pd"
    and "f_le (MIN_ALT cfg) (MAX_ALT cfg)"
    and "ecef2llh geo initial_guess = (glat, glng, galt)"
    and "start_alt = (if f_lt galt (MIN_ALT cfg) then MIN_ALT cfg
                      else if f_gt galt (MAX_ALT cfg) then MAX_ALT cfg else galt)"
    and "(sx, sy, sz) = (if f_lt galt (MIN_ALT cfg) \<or> f_gt galt (MAX_ALT cfg)
                         then llh2ecef geo (glat, glng, start_alt) else initial_guess)"
  shows "solve geo cfg minimize measurements altitude altitude_error initial_guess =
           (case minimize (\<lambda>x. residuals geo x pd altitude altitude_error)
                   (sx, sy, sz, Finite 0) (SOLVER_MAXFEV cfg) of
              None \<Rightarrow> Inl MinimizeRaised
            | Some res \<Rightarrow> Inr (solve_result res))
       \<and> (ecef2llh geo (llh2ecef geo (glat, glng, start_alt)) = (glat, glng, start_alt) \<longrightarrow>
            geodetic_altitude geo (sx, sy, sz) = start_alt)
       \<and> (galt \<noteq> NaN \<longrightarrow> f_le (MIN_ALT cfg) start_alt \<and> f_le start_alt (MAX_ALT cfg))"
proof -
  have not_both: "\<not> f_gt (MIN_ALT cfg) (MAX_ALT cfg)"
    using assms(3) by (rule f_le_not_gt)
  have clamp: "clamp_guess geo cfg initial_guess = (sx, sy, sz)"
    using assms(4,5,6) not_both by (simp add: clamp_guess_def)
  have handed: "solve geo cfg minimize measurements altitude altitude_error initial_guess =
           (case minimize (\<lambda>x. residuals geo x pd altitude altitude_error)
                   (sx, sy, sz, Finite 0) (SOLVER_MAXFEV cfg) of
              None \<Rightarrow> Inl MinimizeRaised
            | Some res \<Rightarrow> Inr (solve_result res))"
    using assms(1,2) clamp by (rule solve_reaches_minimize)
  have altitude_there:
    "ecef2llh geo (llh2ecef geo (glat, glng, start_alt)) = (glat, glng, start_alt) \<longrightarrow>
       geodetic_altitude geo (sx, sy, sz) = start_alt"
    using assms(4,5,6) by (auto simp: geodetic_altitude_def)
  have in_band: "galt \<noteq> NaN \<longrightarrow> f_le (MIN_ALT cfg) start_alt \<and> f_le start_alt (MAX_ALT cfg)"
    using assms(3,5) f_le_refl_left [OF assms(3)] f_le_refl_right [OF assms(3)]
      not_f_lt_f_le [of galt "MIN_ALT cfg" "MIN_ALT cfg"]
      not_f_gt_f_le [of galt "MAX_ALT cfg" "MAX_ALT cfg"]
    by auto
  from handed altitude_there in_band show ?thesis by blast
qed

text \<open>
  In the example frame the altitude is the third coordinate and the band is
  [-500, 20000].  An optimizer that reports its start state shows what solve handed to
  it: a guess at altitude -1000 starts at -500, one at 30000 starts at 20000, one at 100
  starts where it is.
\<close>

theorem initial_guess_clamped_witness:
  "solve example_geodesy example_config start_reporting four_measurements None None
       (Finite 0, Finite 0, Finite (- 1000))
     = Inr (Some ((Finite 0, Finite 0, Finite (- 500)), None))
   \<and> geodetic_altitude example_geodesy (Finite 0, Finite 0, Finite (- 500)) = Finite (- 500)
   \<and> solve example_geodesy example_config start_reporting four_measurements None None
       (Finite 0, Finite 0, Finite 30000)
     = Inr (Some ((Finite 0, Finite 0, Finite 20000), None))
   \<and> geodetic_altitude example_geodesy (Finite 0, Finite 0, Finite 20000) = Finite 20000
   \<and> solve example_geodesy example_config start_reporting four_measurements None None
       (Finite 0, Finite 0, Finite 100)
     = Inr (Some ((Finite 0, Finite 0, Finite 100), None))
   \<and> geodetic_altitude example_geodesy (Finite 0, Finite 0, Finite 100) = Finite 100"
proof -
  have band: "f_le (MIN_ALT example_config) (MAX_ALT example_config)"
    by (simp add: example_config_def)
  have four: "\<not> int (length four_measurements) + (case None of None \<Rightarrow> 0 | Some _ \<Rightarrow> 1) < 4"
    by (simp add: four_measurements_def)
  have below_llh: "ecef2llh example_geodesy (Finite 0, Finite 0, Finite (- 1000))
                   = (Finite 0, Finite 0, Finite (- 1000))"
    by (simp add: example_geodesy_def)
  have below_alt: "Finite (- 500) =
      (if f_lt (Finite (- 1000)) (MIN_ALT example_config) then MIN_ALT example_config
       else if f_gt (Finite (- 1000)) (MAX_ALT example_config) then MAX_ALT example_config
       else Finite (- 1000))"
    by (simp add: example_config_def f_gt_def)
  have below_pos: "(Finite 0, Finite 0, Finite (- 500)) =
      (if f_lt (Finite (- 1000)) (MIN_ALT example_config)
          \<or> f_gt (Finite (- 1000)) (MAX_ALT example_config)
       then llh2ecef example_geodesy (Finite 0, Finite 0, Finite (- 500))
       else (Finite 0, Finite 0, Finite (- 1000)))"
    by (simp add: example_config_def example_geodesy_def f_gt_def)
  have below:
    "solve example_geodesy example_config start_reporting four_measurements None None
         (Finite 0, Finite 0, Finite (- 1000))
       = Inr (Some ((Finite 0, Finite 0, Finite (- 500)), None))
     \<and> geodetic_altitude example_geodesy (Finite 0, Finite 0, Finite (- 500)) = Finite (- 500)"
    using initial_guess_clamped [OF four four_measurements_data band below_llh below_alt below_pos,
        of start_reporting None]
    by (simp add: start_reporting_def solve_result_def f_gt_def geodetic_altitude_def
          example_geodesy_def)
  have above_llh: "ecef2llh example_geodesy (Finite 0, Finite 0, Finite 30000)
                   = (Finite 0, Finite 0, Finite 30000)"
    by (simp add: example_geodesy_def)
  have above_alt: "Finite 20000 =
      (if f_lt (Finite 30000) (MIN_ALT example_config) then MIN_ALT example_config
       else if f_gt (Finite 30000) (MAX_ALT example_config) then MAX_ALT example_config
       else Finite 30000)"
    by (simp add: example_config_def f_gt_def)
  have above_pos: "(Finite 0, Finite 0, Finite 20000) =
      (if f_lt (Finite 30000) (MIN_ALT example_config)
          \<or> f_gt (Finite 30000) (MAX_ALT example_config)
       then llh2ecef example_geodesy (Finite 0, Finite 0, Finite 20000)
       else (Finite 0, Finite 0, Finite 30000))"
    by (simp add: example_config_def example_geodesy_def f_gt_def)
  have above:
    "solve example_geodesy example_config start_reporting four_measurements None None
         (Finite 0, Finite 0, Finite 30000)
       = Inr (Some ((Finite 0, Finite 0, Finite 20000), None))
     \<and> geodetic_altitude example_geodesy (Finite 0, Finite 0, Finite 20000) = Finite 20000"
    using initial_guess_clamped [OF four four_measurements_data band above_llh above_alt above_pos,
        of start_reporting None]
    by (simp add: start_reporting_def solve_result_def f_gt_def geodetic_altitude_def
          example_geodesy_def)
  have within_llh: "ecef2llh example_geodesy (Finite 0, Finite 0, Finite 100)
                   = (Finite 0, Finite 0, Finite 100)"
    by (simp add: example_geodesy_def)
  have within_alt: "Finite 100 =
      (if f_lt (Finite 100) (MIN_ALT example_config) then MIN_ALT example_config
       else if f_gt (Finite 100) (MAX_ALT example_config) then MAX_ALT example_config
       else Finite 100)"
    by (simp add: example_config_def f_gt_def)
  have within_pos: "(Finite 0, Finite 0, Finite 100) =
      (if f_lt (Finite 100) (MIN_ALT example_config)
          \<or> f_gt (Finite 100) (MAX_ALT example_config)
       then llh2ecef example_geodesy (Finite 0, Finite 0, Finite 100)
       else (Finite 0, Finite 0, Finite 100))"
    by (simp add: example_config_def example_geodesy_def f_gt_def)
  have within:
    "solve example_geodesy example_config start_reporting four_measurements None None
         (Finite 0, Finite 0, Finite 100)
       = Inr (Some ((Finite 0, Finite 0, Finite 100), None))
     \<and> geodetic_altitude example_geodesy (Finite 0, Finite 0, Finite 100) = Finite 100"
    using initial_guess_clamped [OF four four_measurements_data band within_llh within_alt within_pos,
        of start_reporting None]
    by (simp add: start_reporting_def solve_result_def f_gt_def geodetic_altitude_def
          example_geodesy_def)
  from below above within show ?thesis by simp
qed

text \<open>
  C10.  For a call that passes the input check and converts its measurements, whatever
  the initial guess: there is a position such that, for every optimizer, solve is the
  outcome of calling that optimizer on the start state made of this position and the
  offset 0.0.  So the optimizer is called, and the fourth component of the start state
  it is handed is exactly 0.0.
\<close>

theorem start_offset_zero:
  assumes "\<not> int (length measurements) + (case altitude of None \<Rightarrow> 0 | Some _ \<Rightarrow> 1) < 4"
    and "pseudorange_data_of cfg measurements = Inr pd"
  shows "\<exists>sx sy sz. \<forall>minimize.
           solve geo cfg minimize measurements altitude altitude_error initial_guess =
             (case minimize (\<lambda>x. residuals geo x pd altitude altitude_error)
                     (sx, sy, sz, Finite 0) (SOLVER_MAXFEV cfg) of
                None \<Rightarrow> Inl MinimizeRaised
              | Some res \<Rightarrow> Inr (solve_result res))"
proof -
  obtain sx sy sz where clamp: "clamp_guess geo cfg initial_guess = (sx, sy, sz)"
    by (cases "clamp_guess geo cfg initial_guess") auto
  have "solve geo cfg minimize measurements altitude altitude_error initial_guess =
             (case minimize (\<lambda>x. residuals geo x pd altitude altitude_error)
                     (sx, sy, sz, Finite 0) (SOLVER_MAXFEV cfg) of
                None \<Rightarrow> Inl MinimizeRaised
              | Some res \<Rightarrow> Inr (solve_result res))" for minimize
    using assms clamp by (rule solve_reaches_minimize)
  then show ?thesis by blast
qed

text \<open>
  An optimizer that reports the offset of its start state in the position slots: solve
  returns (0, 0, 0) for the guess (7, 8, 9).
\<close>

theorem start_offset_zero_witness:
  "solve example_geodesy example_config offset_reporting four_measurements None None
       (Finite 7, Finite 8, Finite 9)
     = Inr (Some ((Finite 0, Finite 0, Finite 0), None))"
proof -
  have four: "\<not> int (length four_measurements) + (case None of None \<Rightarrow> 0 | Some _ \<Rightarrow> 1) < 4"
    by (simp add: four_measurements_def)
  obtain sx sy sz where handed: "\<forall>minimize.
      solve example_geodesy example_config minimize four_measurements None None
          (Finite 7, Finite 8, Finite 9) =
        (case minimize (\<lambda>x. residuals example_geodesy x four_pseudoranges None None)
                (sx, sy, sz, Finite 0) (SOLVER_MAXFEV example_config) of
           None \<Rightarrow> Inl MinimizeRaised
         | Some res \<Rightarrow> Inr (solve_result res))"
    using start_offset_zero [OF four four_measurements_data] by blast
  from handed have "solve example_geodesy example_config offset_reporting four_measurements
      None None (Finite 7, Finite 8, Finite 9) =
        (case offset_reporting (\<lambda>x. residuals example_geodesy x four_pseudoranges None None)
                (sx, sy, sz, Finite 0) (SOLVER_MAXFEV example_config) of
           None \<Rightarrow> Inl MinimizeRaised
         | Some res \<Rightarrow> Inr (solve_result res))"
    by blast
  then show ?thesis
    by (simp add: offset_reporting_def solve_result_def f_gt_def)
qed

subsection \<open>After the optimizer\<close>

text \<open>
  C7, as the code has it.  For a call that passes the input check: when the optimizer
  returns a result whose \<^verbatim>\<open>success\<close> flag is false, solve returns
  \<^verbatim>\<open>None\<close>; when no result comes back, because the conversion of the measurements
  raised before the optimizer was called or because the call of the optimizer raised,
  solve raises that exception, since it has no handler.
\<close>

theorem no_success_returns_None:
  assumes "\<not> int (length measurements) + (case altitude of None \<Rightarrow> 0 | Some _ \<Rightarrow> 1) < 4"
    and "clamp_guess geo cfg initial_guess = (sx, sy, sz)"
  shows "(\<forall>e. pseudorange_data_of cfg measurements = Inl e \<longrightarrow>
            solve geo cfg minimize measurements altitude altitude_error initial_guess = Inl e)
       \<and> (\<forall>pd. pseudorange_data_of cfg measurements = Inr pd \<longrightarrow>
            (\<forall>res. minimize (\<lambda>x. residuals geo x pd altitude altitude_error)
                      (sx, sy, sz, Finite 0) (SOLVER_MAXFEV cfg) = Some res \<and> \<not> success res \<longrightarrow>
               solve geo cfg minimize measurements altitude altitude_error initial_guess
                 = Inr None)
          \<and> (minimize (\<lambda>x. residuals geo x pd altitude altitude_error)
                 (sx, sy, sz, Finite 0) (SOLVER_MAXFEV cfg) = None \<longrightarrow>
               solve geo cfg minimize measurements altitude altitude_error initial_guess
                 = Inl MinimizeRaised))"
proof -
  have raised: "solve geo cfg minimize measurements altitude altitude_error initial_guess = Inl e"
    if "pseudorange_data_of cfg measurements = Inl e" for e
    using assms(1) that by (rule solve_conversion_raises)
  have called: "solve geo cfg minimize measurements altitude altitude_error initial_guess =
           (case minimize (\<lambda>x. residuals geo x pd altitude altitude_error)
                   (sx, sy, sz, Finite 0) (SOLVER_MAXFEV cfg) of
              None \<Rightarrow> Inl MinimizeRaised
            | Some res \<Rightarrow> Inr (solve_result res))"
    if "pseudorange_data_of cfg measurements = Inr pd" for pd
    using assms(1) that assms(2) by (rule solve_reaches_minimize)
  show ?thesis
    using raised called by (auto simp: solve_result_def)
qed

text \<open>An optimizer that reports a failure: solve returns \<^verbatim>\<open>None\<close>.\<close>

theorem no_success_returns_None_witness:
  "solve example_geodesy example_config (reporting not_converged)
      four_measurements None None (Finite 0, Finite 0, Finite 0) = Inr None"
proof -
  have four: "\<not> int (length four_measurements) + (case None of None \<Rightarrow> 0 | Some _ \<Rightarrow> 1) < 4"
    by (simp add: four_measurements_def)
  have clamp: "clamp_guess example_geodesy example_config (Finite 0, Finite 0, Finite 0)
                 = (Finite 0, Finite 0, Finite 0)"
    by (simp add: example_clamp)
  show ?thesis
    using no_success_returns_None [OF four clamp,
        where minimize = "reporting not_converged" and altitude_error = None]
      four_measurements_data
    by (simp add: reporting_def not_converged_def)
qed

text \<open>
  C7 as stated fails.  Four measurements and an altitude pass the input check; without
  an altitude error the objective raises \<^verbatim>\<open>TypeError\<close> at its first evaluation,
  the optimizer reports nothing, and solve raises instead of returning \<^verbatim>\<open>None\<close>.
  Four measurements with a negative variance pass the input check too; the optimizer is
  never reached and solve raises \<^verbatim>\<open>ValueError\<close>.
\<close>

theorem no_success_counterexample:
  "\<not> int (length four_measurements) + (case Some (Finite 1000) of None \<Rightarrow> 0 | Some _ \<Rightarrow> 1) < 4
   \<and> residuals example_geodesy (Finite 0, Finite 0, Finite 0, Finite 0) four_pseudoranges
        (Some (Finite 1000)) None = Inl (TypeError ''unsupported operand type(s) for /'')
   \<and> solve example_geodesy example_config evaluating four_measurements
        (Some (Finite 1000)) None (Finite 0, Finite 0, Finite 0) = Inl MinimizeRaised
   \<and> \<not> int (length negative_variance_measurements) + (case None of None \<Rightarrow> 0 | Some _ \<Rightarrow> 1) < 4
   \<and> solve example_geodesy example_config evaluating negative_variance_measurements
        None None (Finite 0, Finite 0, Finite 0) = Inl (ValueError ''math domain error'')"
proof -
  have reached: "solve_setup example_geodesy example_config four_measurements
         (Some (Finite 1000)) (Finite 0, Finite 0, Finite 0)
     = Inr (four_pseudoranges, (Finite 0, Finite 0, Finite 0, Finite 0))"
    by (simp add: solve_setup_def four_measurements_data example_clamp)
       (simp add: four_measurements_def)
  have raised: "residuals example_geodesy (Finite 0, Finite 0, Finite 0, Finite 0)
         four_pseudoranges (Some (Finite 1000)) None
     = Inl (TypeError ''unsupported operand type(s) for /'')"
    by (simp add: residuals_def example_geodesy_def)
  have through: "solve example_geodesy example_config evaluating four_measurements
        (Some (Finite 1000)) None (Finite 0, Finite 0, Finite 0) = Inl MinimizeRaised"
    using reached raised by (simp add: solve_def evaluating_def)
  have "pseudorange_data_of example_config negative_variance_measurements
          = Inl (ValueError ''math domain error'')"
    by (simp add: pseudorange_data_of_def negative_variance_measurements_def math_sqrt_def)
  then have before: "solve example_geodesy example_config evaluating
        negative_variance_measurements None None (Finite 0, Finite 0, Finite 0)
          = Inl (ValueError ''math domain error'')"
    by (simp add: solve_def solve_setup_def split: prod.splits)
       (simp add: negative_variance_measurements_def)
  from raised through before show ?thesis
    by (simp add: four_measurements_def negative_variance_measurements_def)
qed

text \<open>
  C2.  When the optimizer reports success and the offset component of its state is
  below 0 or above 500000, solve returns \<^verbatim>\<open>None\<close>.
\<close>

theorem implausible_offset_rejected:
  assumes "solve_setup geo cfg measurements altitude initial_guess = Inr (pd, x_guess)"
    and "minimize (\<lambda>x. residuals geo x pd altitude altitude_error) x_guess (SOLVER_MAXFEV cfg)
           = Some res"
    and "success res"
    and "x_vec res = (ex, ey, ez, offset_est)"
    and "f_lt offset_est (Finite 0) \<or> f_gt offset_est (Finite 500000)"
  shows "solve geo cfg minimize measurements altitude altitude_error initial_guess = Inr None"
  using assms by (auto simp: solve_def solve_result_def)

text \<open>An optimizer that reports success with offset -1, and one with offset 500001.\<close>

theorem implausible_offset_rejected_witness:
  "solve example_geodesy example_config (reporting (converged (- 1) (Some example_hess_inv)))
      four_measurements None None (Finite 0, Finite 0, Finite 0) = Inr None
   \<and> solve example_geodesy example_config (reporting (converged 500001 (Some example_hess_inv)))
      four_measurements None None (Finite 0, Finite 0, Finite 0) = Inr None"
proof -
  obtain sx sy sz so where run: "solve_setup example_geodesy example_config four_measurements None
      (Finite 0, Finite 0, Finite 0) = Inr (four_pseudoranges, (sx, sy, sz, so))"
    using four_measurements_setup by blast
  have "solve example_geodesy example_config (reporting (converged (- 1) (Some example_hess_inv)))
      four_measurements None None (Finite 0, Finite 0, Finite 0) = Inr None"
    using run
      implausible_offset_rejected [where geo = example_geodesy and cfg = example_config
        and minimize = "reporting (converged (- 1) (Some example_hess_inv))"
        and measurements = four_measurements and altitude = None and altitude_error = None
        and initial_guess = "(Finite 0, Finite 0, Finite 0)" and pd = four_pseudoranges
        and x_guess = "(sx, sy, sz, so)"
        and res = "converged (- 1) (Some example_hess_inv)"
        and ex = "Finite 10" and ey = "Finite 20" and ez = "Finite 30"
        and offset_est = "Finite (- 1)"]
    by (simp add: reporting_def converged_def)
  moreover
  have "solve example_geodesy example_config (reporting (converged 500001 (Some example_hess_inv)))
      four_measurements None None (Finite 0, Finite 0, Finite 0) = Inr None"
    using run
      implausible_offset_rejected [where geo = example_geodesy and cfg = example_config
        and minimize = "reporting (converged 500001 (Some example_hess_inv))"
        and measurements = four_measurements and altitude = None and altitude_error = None
        and initial_guess = "(Finite 0, Finite 0, Finite 0)" and pd = four_pseudoranges
        and x_guess = "(sx, sy, sz, so)"
        and res = "converged 500001 (Some example_hess_inv)"
        and ex = "Finite 10" and ey = "Finite 20" and ez = "Finite 30"
        and offset_est = "Finite 500001"]
    by (simp add: reporting_def converged_def f_gt_def)
  ultimately show ?thesis by simp
qed

lemma slice3_square:
  assumes "length h = 4" and "\<forall>row\<in>set h. length row = 4"
  shows "length (slice3 h) = 3
       \<and> (\<forall>i<3. length (slice3 h ! i) = 3 \<and> (\<forall>j<3. slice3 h ! i ! j = h ! i ! j))"
proof -
  have rows: "length (h ! i) = 4" if "i < 3" for i
    using assms that by simp
  have "length (slice3 h) = 3"
    using assms(1) by (simp add: slice3_def)
  moreover have "length (slice3 h ! i) = 3 \<and> (\<forall>j<3. slice3 h ! i ! j = h ! i ! j)" if "i < 3" for i
    using that assms(1) rows [OF that] by (simp add: slice3_def)
  ultimately show ?thesis by blast
qed

text \<open>
  C6.  For a result that the optimizer reports as a success and whose offset passes the
  range check: without an inverse-Hessian estimate solve returns the position with
  covariance \<^verbatim>\<open>None\<close>; with an estimate h it returns the position with
  \<^verbatim>\<open>h[0:3, 0:3]\<close>, which for a 4 by 4 matrix is the 3 by 3 matrix of the entries
  h[i][j] with i, j < 3: the offset row and column are gone.
\<close>

theorem covariance_extracted:
  assumes "solve_setup geo cfg measurements altitude initial_guess = Inr (pd, x_guess)"
    and "minimize (\<lambda>x. residuals geo x pd altitude altitude_error) x_guess (SOLVER_MAXFEV cfg)
           = Some res"
    and "success res"
    and "x_vec res = (ex, ey, ez, offset_est)"
    and "\<not> (f_lt offset_est (Finite 0) \<or> f_gt offset_est (Finite 500000))"
  shows "(hess_inv res = None \<longrightarrow>
            solve geo cfg minimize measurements altitude altitude_error initial_guess
              = Inr (Some ((ex, ey, ez), None)))
       \<and> (\<forall>h. hess_inv res = Some h \<longrightarrow>
            solve geo cfg minimize measurements altitude altitude_error initial_guess
              = Inr (Some ((ex, ey, ez), Some (slice3 h)))
            \<and> (length h = 4 \<and> (\<forall>row\<in>set h. length row = 4) \<longrightarrow>
                 length (slice3 h) = 3
                 \<and> (\<forall>i<3. length (slice3 h ! i) = 3 \<and> (\<forall>j<3. slice3 h ! i ! j = h ! i ! j))))"
proof -
  have "solve geo cfg minimize measurements altitude altitude_error initial_guess
          = Inr (Some ((ex, ey, ez), map_option slice3 (hess_inv res)))"
    using assms by (auto simp: solve_def solve_result_def split: option.splits)
  then show ?thesis using slice3_square by auto
qed

text \<open>The example estimate holds 1..16 row by row; its position block is 1 2 3, 5 6 7, 9 10 11.\<close>

theorem covariance_extracted_witness:
  "solve example_geodesy example_config (reporting (converged 40 None))
      four_measurements None None (Finite 0, Finite 0, Finite 0)
     = Inr (Some ((Finite 10, Finite 20, Finite 30), None))
   \<and> solve example_geodesy example_config (reporting (converged 40 (Some example_hess_inv)))
      four_measurements None None (Finite 0, Finite 0, Finite 0)
     = Inr (Some ((Finite 10, Finite 20, Finite 30),
                  Some [[Finite 1, Finite 2, Finite 3],
                        [Finite 5, Finite 6, Finite 7],
                        [Finite 9, Finite 10, Finite 11]]))"
proof -
  obtain sx sy sz so where run: "solve_setup example_geodesy example_config four_measurements None
      (Finite 0, Finite 0, Finite 0) = Inr (four_pseudoranges, (sx, sy, sz, so))"
    using four_measurements_setup by blast
  have "solve example_geodesy example_config (reporting (converged 40 None))
      four_measurements None None (Finite 0, Finite 0, Finite 0)
     = Inr (Some ((Finite 10, Finite 20, Finite 30), None))"
    using run
      covariance_extracted [where geo = example_geodesy and cfg = example_config
        and minimize = "reporting (converged 40 None)"
        and measurements = four_measurements and altitude = None and altitude_error = None
        and initial_guess = "(Finite 0, Finite 0, Finite 0)" and pd = four_pseudoranges
        and x_guess = "(sx, sy, sz, so)" and res = "converged 40 None"
        and ex = "Finite 10" and ey = "Finite 20" and ez = "Finite 30"
        and offset_est = "Finite 40"]
    by (simp add: reporting_def converged_def f_gt_def)
  moreover
  have "solve example_geodesy example_config (reporting (converged 40 (Some example_hess_inv)))
      four_measurements None None (Finite 0, Finite 0, Finite 0)
     = Inr (Some ((Finite 10, Finite 20, Finite 30), Some (slice3 example_hess_inv)))"
    using run
      covariance_extracted [where geo = example_geodesy and cfg = example_config
        and minimize = "reporting (converged 40 (Some example_hess_inv))"
        and measurements = four_measurements and altitude = None and altitude_error = None
        and initial_guess = "(Finite 0, Finite 0, Finite 0)" and pd = four_pseudoranges
        and x_guess = "(sx, sy, sz, so)" and res = "converged 40 (Some example_hess_inv)"
        and ex = "Finite 10" and ey = "Finite 20" and ez = "Finite 30"
        and offset_est = "Finite 40"]
    by (simp add: reporting_def converged_def f_gt_def)
  moreover have "slice3 example_hess_inv =
     [[Finite 1, Finite 2, Finite 3], [Finite 5, Finite 6, Finite 7], [Finite 9, Finite 10, Finite 11]]"
    by (simp add: slice3_def example_hess_inv_def)
  ultimately show ?thesis by simp
qed

text \<open>
  C8.  When the optimizer reports success and the offset estimate lies in [0, 500000],
  solve returns the estimated position (and the covariance block, if any).  Nothing is
  assumed about the receivers: no distance from the estimate to a receiver enters, so
  the offset check is the only gate.
\<close>

theorem offset_gate_only:
  assumes "solve_setup geo cfg measurements altitude initial_guess = Inr (pd, x_guess)"
    and "minimize (\<lambda>x. residuals geo x pd altitude altitude_error) x_guess (SOLVER_MAXFEV cfg)
           = Some res"
    and "success res"
    and "x_vec res = (ex, ey, ez, offset_est)"
    and "f_le (Finite 0) offset_est" and "f_le offset_est (Finite 500000)"
  shows "solve geo cfg minimize measurements altitude altitude_error initial_guess
           = Inr (Some ((ex, ey, ez), map_option slice3 (hess_inv res)))"
  using assms(1-4) f_le_zero_not_lt [OF assms(5)] f_le_not_gt [OF assms(6)]
  by (auto simp: solve_def solve_result_def split: option.splits)

text \<open>
  The estimate (10, 20, 30) with offset 40 is returned although the first receiver is
  999990 m away from it, beyond 500 km.
\<close>

theorem offset_gate_only_witness:
  "solve example_geodesy example_config (reporting (converged 40 None))
      far_measurements None None (Finite 0, Finite 0, Finite 0)
     = Inr (Some ((Finite 10, Finite 20, Finite 30), None))
   \<and> ecef_distance example_geodesy (position (receiver_at 1000000 20 30))
        (Finite 10, Finite 20, Finite 30) = Finite 999990
   \<and> f_gt (Finite 999990) (Finite 500000)"
proof -
  have "\<exists>pd sx sy sz so. solve_setup example_geodesy example_config far_measurements None
      (Finite 0, Finite 0, Finite 0) = Inr (pd, (sx, sy, sz, so))"
    by (simp add: solve_setup_def far_measurements_def pseudorange_data_of_def math_sqrt_def
          split: prod.splits)
  then obtain pd sx sy sz so where run: "solve_setup example_geodesy example_config
      far_measurements None (Finite 0, Finite 0, Finite 0) = Inr (pd, (sx, sy, sz, so))"
    by blast
  have "solve example_geodesy example_config (reporting (converged 40 None))
      far_measurements None None (Finite 0, Finite 0, Finite 0)
     = Inr (Some ((Finite 10, Finite 20, Finite 30), None))"
    using run
      offset_gate_only [where geo = example_geodesy and cfg = example_config
        and minimize = "reporting (converged 40 None)"
        and measurements = far_measurements and altitude = None and altitude_error = None
        and initial_guess = "(Finite 0, Finite 0, Finite 0)" and pd = pd
        and x_guess = "(sx, sy, sz, so)" and res = "converged 40 None"
        and ex = "Finite 10" and ey = "Finite 20" and ez = "Finite 30"
        and offset_est = "Finite 40"]
    by (simp add: reporting_def converged_def)
  moreover
  have "ecef_distance example_geodesy (position (receiver_at 1000000 20 30))
        (Finite 10, Finite 20, Finite 30) = Finite 999990"
    by (simp add: example_geodesy_def receiver_at_def axis_distance)
  ultimately show ?thesis by (simp add: f_gt_def)
qed

subsection \<open>The caller's list\<close>

lemma heap_measurements_prefix:
  assumes "heap_measurements h m = Inr ms" and "take (length h) h' = h"
  shows "heap_measurements h' m = Inr ms"
proof -
  from assms(1) have m: "m < length h"
    by (auto simp: heap_measurements_def split: if_splits)
  from assms(2) have len: "length h \<le> length h'"
    by (metis length_take min.cobounded2 min.commute)
  have "h' ! m = take (length h) h' ! m"
    using m by simp
  then have "h' ! m = h ! m"
    using assms(2) by simp
  then show ?thesis
    using assms(1) m len by (auto simp: heap_measurements_def split: if_splits)
qed

lemma solve_heap_result:
  assumes "heap_measurements h m = Inr ms"
  shows "fst (solve_heap geo cfg minimize m altitude altitude_error initial_guess h)
           = solve geo cfg minimize ms altitude altitude_error initial_guess"
  using assms
  by (auto simp: solve_heap_def solve_def solve_setup_def heap_alloc_def
           split: sum.splits prod.splits option.splits)

lemma solve_heap_prefix:
  "take (length h) (snd (solve_heap geo cfg minimize m altitude altitude_error initial_guess h)) = h"
  by (auto simp: solve_heap_def heap_alloc_def split: sum.splits prod.splits option.splits)

text \<open>
  C9.  When \<^verbatim>\<open>measurements\<close> refers to a list on the heap, then after solve, whether
  it raised, returned \<^verbatim>\<open>None\<close> or returned a position, the same address holds the
  same list with the same entries; every object that was on the heap is as it was (solve
  only adds objects), and the outcome is the one of the function on the list's content.
  The collaborators are functions of the values handed to them.
\<close>

theorem solve_keeps_measurements:
  assumes "heap_measurements h m = Inr ms"
    and "solve_heap geo cfg minimize m altitude altitude_error initial_guess h = (r, h')"
  shows "heap_measurements h' m = Inr ms
       \<and> take (length h) h' = h
       \<and> r = solve geo cfg minimize ms altitude altitude_error initial_guess"
proof -
  have prefix: "take (length h) h' = h"
    using solve_heap_prefix [of h geo cfg minimize m altitude altitude_error initial_guess] assms(2)
    by simp
  have "heap_measurements h' m = Inr ms"
    using assms(1) prefix by (rule heap_measurements_prefix)
  moreover have "r = solve geo cfg minimize ms altitude altitude_error initial_guess"
    using solve_heap_result [OF assms(1), of geo cfg minimize altitude altitude_error initial_guess]
      assms(2) by simp
  ultimately show ?thesis using prefix by simp
qed

text \<open>
  A heap of two objects, the measurements at address 1: after solve the heap has four
  objects and address 1 still holds the four measurements.
\<close>

theorem solve_keeps_measurements_witness:
  "heap_measurements [FloatList [Finite 1], MeasurementList four_measurements] 1
     = Inr four_measurements
   \<and> heap_measurements
       (snd (solve_heap example_geodesy example_config (reporting (converged 40 None)) 1
               None None (Finite 0, Finite 0, Finite 0)
               [FloatList [Finite 1], MeasurementList four_measurements])) 1
     = Inr four_measurements
   \<and> length (snd (solve_heap example_geodesy example_config (reporting (converged 40 None)) 1
               None None (Finite 0, Finite 0, Finite 0)
               [FloatList [Finite 1], MeasurementList four_measurements])) = 4"
proof -
  let ?h = "[FloatList [Finite 1], MeasurementList four_measurements]"
  have before: "heap_measurements ?h 1 = Inr four_measurements"
    by (simp add: heap_measurements_def)
  obtain r h' where run: "solve_heap example_geodesy example_config (reporting (converged 40 None)) 1
               None None (Finite 0, Finite 0, Finite 0) ?h = (r, h')"
    by (cases "solve_heap example_geodesy example_config (reporting (converged 40 None)) 1
               None None (Finite 0, Finite 0, Finite 0) ?h") auto
  have "heap_measurements h' 1 = Inr four_measurements"
    using solve_keeps_measurements [OF before run] by simp
  moreover have "length h' = 4"
    using run
    by (auto simp: solve_heap_def heap_measurements_def heap_alloc_def four_measurements_def
          pseudorange_data_of_def math_sqrt_def reporting_def
          split: prod.splits)
  ultimately show ?thesis using before run by simp
qed

end
